theory Spec2Isabelle
  imports Complex_Main
begin

section \<open>CPU temperature model: a first-order linear ODE\<close>

text \<open>
  The program \<^verbatim>\<open>cpu_temperature_model.py\<close> models the temperature of a processor by
  \<^verbatim>\<open>dT/dt = (1/C)[P(t) - k(T - T_env)]\<close>.

  Numbers. Python's \<^verbatim>\<open>int\<close> and \<^verbatim>\<open>float\<close> values are both embedded in \<^typ>\<open>real\<close>:
  \<^verbatim>\<open>/\<close> is true division, and the rounding of IEEE doubles is not modelled. Every
  statement below is therefore a statement about the arithmetic the code writes down,
  carried out exactly.
\<close>

subsection \<open>Physical parameters\<close>

text \<open>
  \<^verbatim>\<open>
  C = 50          # Heat capacity (J/degC)
  k = 5           # Thermal conductivity (W/degC)
  T_env = 25      # Room temperature (degC)
  T0 = 25         # Initial CPU temperature (degC)
  \<close>
  Module-level names, assigned once when the module is loaded and never assigned again.
\<close>

definition C :: real where
  "C = 50"

definition k :: real where
  "k = 5"

definition T_env :: real where
  "T_env = 25"

definition T0 :: real where
  "T0 = 25"

subsection \<open>Power scenarios\<close>

text \<open>
  \<^verbatim>\<open>
  def power_idle(t):
      return 10

  def power_step(t):
      return 10 if t < 5 else 80

  def power_periodic(t):
      omega = 2 * np.pi / 20  # Period = 20 seconds
      return 45 + 35 * np.sin(omega * t)
  \<close>
\<close>

definition power_idle :: "real \<Rightarrow> real" where
  "power_idle t = 10"

definition power_step :: "real \<Rightarrow> real" where
  "power_step t = (if t < 5 then 10 else 80)"

definition power_periodic :: "real \<Rightarrow> real" where
  "power_periodic t = (let omega = 2 * pi / 20 in 45 + 35 * sin (omega * t))"

subsection \<open>The ODE right-hand side\<close>

text \<open>
  \<^verbatim>\<open>
  def cpu_ode(T, t, power_func):
      P = power_func(t)                # Heat in
      heat_loss = k * (T - T_env)      # Heat out
      dT_dt = (P - heat_loss) / C      # Rate of change
      return dT_dt
  \<close>
  The function reads the module constants and calls \<^verbatim>\<open>power_func\<close>; it assigns
  only to its own locals.
\<close>

definition cpu_ode :: "real \<Rightarrow> real \<Rightarrow> (real \<Rightarrow> real) \<Rightarrow> real" where
  "cpu_ode T t power_func =
     (let P = power_func t;
          heat_loss = k * (T - T_env);
          dT_dt = (P - heat_loss) / C
      in dT_dt)"

subsection \<open>The closed-form solution for constant power\<close>

text \<open>
  \<^verbatim>\<open>
  def analytical_solution(t, T0, P_const):
      tau = C / k
      T_steady = T_env + P_const / k
      T = T_steady + (T0 - T_steady) * np.exp(-t / tau)
      return T
  \<close>
  The parameter \<^verbatim>\<open>T0\<close> shadows the module constant of the same name, which the
  \<open>\<lambda>\<close> below does as well.
\<close>

definition analytical_solution :: "real \<Rightarrow> real \<Rightarrow> real \<Rightarrow> real" where
  "analytical_solution =
     (\<lambda>t T0 P_const.
        let tau = C / k;
            T_steady = T_env + P_const / k;
            T = T_steady + (T0 - T_steady) * exp (- t / tau)
        in T)"

subsection \<open>Library routines the integrator calls\<close>

text \<open>
  \<^verbatim>\<open>np.linspace(start, stop, num)\<close> (NumPy, \<^verbatim>\<open>endpoint=True\<close>) is not part of the
  program; it is modelled after NumPy's implementation:
  \<^verbatim>\<open>
  div = num - 1
  y = arange(0, num)
  delta = stop - start
  step = delta / div            # only when div > 0
  y = y * step if div > 0 else y * delta
  y += start
  if num > 1: y[-1] = stop
  \<close>
  (\<^verbatim>\<open>div\<close> is written \<open>divisor\<close> below.)
\<close>

definition linspace :: "real \<Rightarrow> real \<Rightarrow> nat \<Rightarrow> real list" where
  "linspace start stop num =
     (let divisor = num - 1;
          y = map real [0..<num];
          delta = stop - start;
          y = (if 0 < divisor then map (\<lambda>v. v * (delta / real divisor)) y
               else map (\<lambda>v. v * delta) y);
          y = map (\<lambda>v. v + start) y
      in if 1 < num then y[num - 1 := stop] else y)"

text \<open>
  \<^verbatim>\<open>scipy.integrate.odeint(func, y0, t, args)\<close> is an external solver (LSODA); the
  program's text does not determine what it computes. It is a parameter of the model: a
  function from the right-hand side \<^verbatim>\<open>func(y, t, *args)\<close>, the initial value, the
  sample times and the extra argument to an array with one row per sample time.
\<close>

type_synonym 'a odeint =
  "(real \<Rightarrow> real \<Rightarrow> 'a \<Rightarrow> real) \<Rightarrow> real \<Rightarrow> real list \<Rightarrow> 'a \<Rightarrow> real list list"




text \<open>\<^verbatim>\<open>ndarray.flatten()\<close>: the rows one after another.\<close>

definition flatten :: "real list list \<Rightarrow> real list" where
  "flatten rows = concat rows"

subsection \<open>The integrator\<close>

text \<open>
  \<^verbatim>\<open>
  def solve_scenario(power_func, t_span=(0, 60), label=""):
      t = np.linspace(t_span[0], t_span[1], 500)  # 500 time points
      T = odeint(cpu_ode, T0, t, args=(power_func,))  # Solve ODE
      T = T.flatten()  # Convert to 1D array
      return t, T
  \<close>
  The body checks none of its arguments and has no \<^verbatim>\<open>raise\<close>; the module defines no
  exception class. The result type is a sum so that ``the call raises'' can be said at
  all: \<open>error\<close> holds the exception the specification names, and the model, like the
  code, has no branch that produces it.
\<close>

datatype error = IntegrationError

definition solve_scenario ::
  "(real \<Rightarrow> real) odeint \<Rightarrow> (real \<Rightarrow> real) \<Rightarrow> real \<times> real \<Rightarrow> string
     \<Rightarrow> error + (real list \<times> real list)" where
  "solve_scenario odeint power_func t_span label =
     (let t = linspace (fst t_span) (snd t_span) 500;
          T = odeint cpu_ode T0 t power_func;
          T = flatten T
      in Inr (t, T))"

subsection \<open>The printed analysis\<close>

text \<open>
  \<^verbatim>\<open>
  def print_analysis():
      tau = C / k
      T_steady_idle = T_env + power_idle(0) / k
      T_steady_load = T_env + 80 / k
      print(f"  Heat capacity (C):         {C} J/degC")
      print(f"  Thermal conductivity (k):  {k} W/degC")
      print(f"  Ambient temperature:       {T_env} degC")
      print(f"  Initial temperature:       {T0} degC")
      print(f"  Time constant (tau = C/k): {tau:.1f} seconds")
      print(f"  63% response time:         {tau:.1f} seconds")
      print(f"  95% response time:         {3*tau:.1f} seconds")
      print(f"  99% response time:         {5*tau:.1f} seconds")
      print(f"  Idle (10 W):               {T_steady_idle:.1f} degC")
      print(f"  Full Load (80 W):          {T_steady_load:.1f} degC")
      print(f"  Temperature rise at load:  {T_steady_load - T_env:.1f} degC")
      print(f"  System reaches steady state in ~{int(5*tau)} seconds")
      print(f"  Each additional watt increases steady temp by {1/k:.2f} degC")
  \<close>
  The model returns the numbers the function computes and interpolates, one field per
  printed line, before they are formatted.
\<close>

record analysis =
  heat_capacity :: real
  thermal_conductivity :: real
  ambient_temperature :: real
  initial_temperature :: real
  time_constant :: real
  response_time_63 :: real
  response_time_95 :: real
  response_time_99 :: real
  steady_idle :: real
  steady_full_load :: real
  rise_at_load :: real
  settle_seconds :: int
  degrees_per_watt :: real

text \<open>Python's \<^verbatim>\<open>int(x)\<close> on a float truncates towards zero.\<close>

definition py_int :: "real \<Rightarrow> int" where
  "py_int x = (if 0 \<le> x then \<lfloor>x\<rfloor> else \<lceil>x\<rceil>)"

definition print_analysis :: analysis where
  "print_analysis =
     (let tau = C / k;
          T_steady_idle = T_env + power_idle 0 / k;
          T_steady_load = T_env + 80 / k
      in \<lparr> heat_capacity = C,
           thermal_conductivity = k,
           ambient_temperature = T_env,
           initial_temperature = T0,
           time_constant = tau,
           response_time_63 = tau,
           response_time_95 = 3 * tau,
           response_time_99 = 5 * tau,
           steady_idle = T_steady_idle,
           steady_full_load = T_steady_load,
           rise_at_load = T_steady_load - T_env,
           settle_seconds = py_int (5 * tau),
           degrees_per_watt = 1 / k \<rparr>)"

section \<open>Properties\<close>

subsection \<open>Sample times\<close>






subsection \<open>Solvers\<close>









subsection \<open>The ODE model\<close>

text \<open>
  C1. \<open>cpu_ode\<close> is a function of its three arguments alone and returns, for every
  temperature \<open>T\<close>, time \<open>t\<close> and power profile \<open>P\<close>, the energy-balance rate
  \<open>(P(t) - k (T - T_env)) / C\<close>; with the program's constants this is
  \<open>(P(t) - 5 (T - 25)) / 50\<close>.
\<close>

theorem cpu_ode_energy_balance:
  "cpu_ode T t P = (P t - k * (T - T_env)) / C \<and>
   cpu_ode T t P = (P t - 5 * (T - 25)) / 50"
  by (simp add: cpu_ode_def Let_def k_def T_env_def C_def)


subsection \<open>The closed-form solution\<close>

text \<open>
  C2. For every time \<open>t\<close>, initial temperature and constant power,
  \<open>analytical_solution\<close> returns \<open>T_ss + (T_initial - T_ss) exp (- t / tau)\<close> with
  \<open>T_ss = T_env + P_constant / k\<close> and \<open>tau = C / k\<close>; with the program's constants,
  \<open>T_ss = 25 + P_constant / 5\<close> and \<open>tau = 10\<close>.
\<close>

theorem analytical_solution_formula:
  "analytical_solution t T_initial P_constant =
     (T_env + P_constant / k) +
     (T_initial - (T_env + P_constant / k)) * exp (- t / (C / k)) \<and>
   analytical_solution t T_initial P_constant =
     (25 + P_constant / 5) + (T_initial - (25 + P_constant / 5)) * exp (- t / 10)"
  by (simp add: analytical_solution_def Let_def C_def k_def T_env_def)

subsection \<open>Power profiles\<close>

text \<open>
  C8. \<open>power_periodic\<close> returns \<open>45 + 35 sin (2 pi t / 20)\<close> at every time \<open>t\<close>, and
  the value lies between 10 and 80 watts; in particular it is never negative.
\<close>

theorem power_periodic_range:
  "power_periodic t = 45 + 35 * sin (2 * pi * t / 20) \<and>
   10 \<le> power_periodic t \<and> power_periodic t \<le> 80 \<and> 0 \<le> power_periodic t"
proof -
  have eq: "power_periodic t = 45 + 35 * sin (2 * pi * t / 20)"
    by (simp add: power_periodic_def Let_def)
  have "- 1 \<le> sin (2 * pi * t / 20)" and "sin (2 * pi * t / 20) \<le> 1"
    by (rule sin_ge_minus_one, rule sin_le_one)
  then have "10 \<le> 45 + 35 * sin (2 * pi * t / 20)"
    and "45 + 35 * sin (2 * pi * t / 20) \<le> 80"
    by linarith+
  then show ?thesis unfolding eq by linarith
qed

subsection \<open>Physical parameters and derived characteristics\<close>


text \<open>
  C6. With \<open>C = 50\<close>, \<open>k = 5\<close>, \<open>T_env = 25\<close>, \<open>T0 = 25\<close> the analysis computes the
  time constant 10 s, the idle (10 W) steady state 27, the full-load (80 W) steady
  state 41 and the 95% response time 30 s; the remaining fields are listed as well.
\<close>

theorem print_analysis_characteristics:
  "time_constant print_analysis = 10 \<and>
   steady_idle print_analysis = 27 \<and>
   steady_full_load print_analysis = 41 \<and>
   response_time_95 print_analysis = 30 \<and>
   print_analysis =
     \<lparr> heat_capacity = 50, thermal_conductivity = 5, ambient_temperature = 25,
       initial_temperature = 25, time_constant = 10, response_time_63 = 10,
       response_time_95 = 30, response_time_99 = 50, steady_idle = 27,
       steady_full_load = 41, rise_at_load = 16, settle_seconds = 50,
       degrees_per_watt = 1 / 5 \<rparr>"
  by (simp add: print_analysis_def Let_def C_def k_def T_env_def T0_def power_idle_def
      py_int_def)

subsection \<open>The integrator\<close>





text \<open>
  C10. The label has no effect on the result: for every solver, power profile and span,
  any two labels give the same time and temperature arrays.
\<close>

theorem solve_scenario_label_irrelevant:
  "solve_scenario odeint power_func t_span l1 = solve_scenario odeint power_func t_span l2"
  by (simp add: solve_scenario_def)

end
